theory Spec2Isabelle
  imports Main
begin

section \<open>JavaScript values\<close>

text \<open>
  The values that \<^verbatim>\<open>lib/client.js\<close> receives and builds. A number is an integer-valued
  JavaScript number (below \<open>2^53\<close> in magnitude, where it prints as its decimal digits). A
  string is the UTF-8 text of the JavaScript string. An object is the list of its own
  enumerable properties in enumeration order; an array has its elements and, after them,
  the extra named properties a caller or this module may have put on it. A function value
  carries its source text (what \<^verbatim>\<open>String(f)\<close> gives). Values are finite trees: an
  object that contains itself and a BigInt, on which \<^verbatim>\<open>JSON.stringify\<close> throws, are not
  represented.
  Properties inherited from a prototype are not represented: none of the names this
  module reads (\<^verbatim>\<open>host\<close>, \<^verbatim>\<open>port\<close>, \<^verbatim>\<open>core\<close>, \<^verbatim>\<open>rootPath\<close>, \<^verbatim>\<open>protocol\<close>,
  \<^verbatim>\<open>requestHandler\<close>, \<^verbatim>\<open>user\<close>, \<^verbatim>\<open>password\<close>, \<^verbatim>\<open>timeout\<close>) is defined on a built-in
  prototype.
\<close>

text \<open>
  Modelled from the spec: the query builder \<^verbatim>\<open>lib/query.js\<close>, which is not among the
  sources. The specification has it accumulate parameters and serialise them to a query
  string on demand; an instance is here the string its \<^verbatim>\<open>toString()\<close> renders, with
  the instance's own enumerable properties (it is taken to have no \<^verbatim>\<open>toJSON\<close>).
\<close>

datatype jsval =
    JUndefined
  | JNull
  | JBool bool
  | JNum int
  | JStr string
  | JArr "jsval list" "(string \<times> jsval) list"
  | JObj "(string \<times> jsval) list"
  | JFun string
  | JQuery string "(string \<times> jsval) list"

text \<open>An \<^verbatim>\<open>Error\<close> object: its \<^verbatim>\<open>name\<close> and its \<^verbatim>\<open>message\<close>.\<close>

datatype js_error = JsError (err_name: string) (err_message: string)

definition Error :: "string \<Rightarrow> js_error" where
  "Error msg = JsError ''Error'' msg"

definition TypeError :: "string \<Rightarrow> js_error" where
  "TypeError msg = JsError ''TypeError'' msg"

text \<open>\<^verbatim>\<open>Error.prototype.toString\<close>, which \<^verbatim>\<open>new Error(error)\<close> applies to its argument.\<close>

definition error_toString :: "js_error \<Rightarrow> string" where
  "error_toString e =
     (if err_name e = [] then err_message e
      else if err_message e = [] then err_name e
      else err_name e @ '': '' @ err_message e)"

subsection \<open>Truthiness, type tests and property reads\<close>

fun truthy :: "jsval \<Rightarrow> bool" where
  "truthy JUndefined = False"
| "truthy JNull = False"
| "truthy (JBool b) = b"
| "truthy (JNum n) = (n \<noteq> 0)"
| "truthy (JStr s) = (s \<noteq> [])"
| "truthy _ = True"

text \<open>The operator \<^verbatim>\<open>a || b\<close>.\<close>

definition js_or :: "jsval \<Rightarrow> jsval \<Rightarrow> jsval" where
  "js_or a b = (if truthy a then a else b)"

text \<open>\<^verbatim>\<open>typeof v === "function"\<close> and underscore's \<^verbatim>\<open>_.isFunction\<close>.\<close>

fun isFunction :: "jsval \<Rightarrow> bool" where
  "isFunction (JFun _) = True"
| "isFunction _ = False"

text \<open>\<^verbatim>\<open>_.isString\<close>.\<close>

fun isString :: "jsval \<Rightarrow> bool" where
  "isString (JStr _) = True"
| "isString _ = False"

text \<open>\<^verbatim>\<open>Array.isArray\<close>.\<close>

fun isArray :: "jsval \<Rightarrow> bool" where
  "isArray (JArr _ _) = True"
| "isArray _ = False"

text \<open>\<^verbatim>\<open>_.isObject\<close>: a function, or a non-null value of type object.\<close>

fun isObject :: "jsval \<Rightarrow> bool" where
  "isObject (JArr _ _) = True"
| "isObject (JObj _) = True"
| "isObject (JFun _) = True"
| "isObject (JQuery _ _) = True"
| "isObject _ = False"

text \<open>\<^verbatim>\<open>v === null || v === void 0\<close>.\<close>

fun isNullish :: "jsval \<Rightarrow> bool" where
  "isNullish JUndefined = True"
| "isNullish JNull = True"
| "isNullish _ = False"

subsection \<open>Printing\<close>

definition digit_char :: "nat \<Rightarrow> char" where
  "digit_char d = ''0123456789ABCDEF'' ! (d mod 16)"

definition digit_char_lower :: "nat \<Rightarrow> char" where
  "digit_char_lower d = ''0123456789abcdef'' ! (d mod 16)"

fun show_nat :: "nat \<Rightarrow> string" where
  "show_nat n = (if n < 10 then [digit_char n] else show_nat (n div 10) @ [digit_char (n mod 10)])"

declare show_nat.simps [simp del]

definition show_int :: "int \<Rightarrow> string" where
  "show_int i = (if i < 0 then CHR ''-'' # show_nat (nat (- i)) else show_nat (nat i))"

text \<open>Joining strings with a separator, as \<^verbatim>\<open>Array.prototype.join\<close> does with the
  printed elements.\<close>

fun join_with :: "string \<Rightarrow> string list \<Rightarrow> string" where
  "join_with sep [] = []"
| "join_with sep [x] = x"
| "join_with sep (x # y # ys) = x @ sep @ join_with sep (y # ys)"

text \<open>The names of an array's elements: \<^verbatim>\<open>"0"\<close>, \<^verbatim>\<open>"1"\<close>, ...\<close>

definition indexed :: "jsval list \<Rightarrow> (string \<times> jsval) list" where
  "indexed xs = zip (map show_nat [0..<length xs]) xs"

text \<open>\<^verbatim>\<open>Object.keys(v)\<close> with the values: the own enumerable properties.\<close>

fun own_props :: "jsval \<Rightarrow> (string \<times> jsval) list" where
  "own_props (JObj kvs) = kvs"
| "own_props (JArr xs ps) = indexed xs @ ps"
| "own_props (JQuery s ps) = ps"
| "own_props _ = []"

text \<open>Reading \<^verbatim>\<open>v.k\<close> on a value that is neither \<^verbatim>\<open>null\<close> nor \<^verbatim>\<open>undefined\<close>
  (reading a property of those throws; the callers below test for them first).\<close>

definition get_prop :: "jsval \<Rightarrow> string \<Rightarrow> jsval" where
  "get_prop v k = (case map_of (own_props v) k of Some x \<Rightarrow> x | None \<Rightarrow> JUndefined)"

text \<open>The abstract operation ToString, which string concatenation and
  \<^verbatim>\<open>Array.prototype.join\<close> apply to their operands. In a join, \<^verbatim>\<open>null\<close> and
  \<^verbatim>\<open>undefined\<close> elements print as the empty string.\<close>

fun toString :: "jsval \<Rightarrow> string"
  and join_element :: "jsval \<Rightarrow> string"
  and join_elements :: "jsval list \<Rightarrow> string list" where
  "toString JUndefined = ''undefined''"
| "toString JNull = ''null''"
| "toString (JBool b) = (if b then ''true'' else ''false'')"
| "toString (JNum n) = show_int n"
| "toString (JStr s) = s"
| "toString (JArr xs ps) = join_with '','' (join_elements xs)"
| "toString (JObj kvs) = ''[object Object]''"
| "toString (JFun src) = src"
| "toString (JQuery s ps) = s"
| "join_element v = (if isNullish v then [] else toString v)"
| "join_elements [] = []"
| "join_elements (x # xs) = join_element x # join_elements xs"

text \<open>\<^verbatim>\<open>xs.join(sep)\<close> on an array literal of the given elements.\<close>

definition js_join :: "jsval list \<Rightarrow> string \<Rightarrow> string" where
  "js_join xs sep = join_with sep (join_elements xs)"

section \<open>The library functions the client calls\<close>

subsection \<open>\<^verbatim>\<open>querystring.stringify\<close>\<close>

text \<open>
  The module \<^verbatim>\<open>querystring\<close> as current releases of Node.js implement it. Its
  \<^verbatim>\<open>querystring.escape\<close> percent-encodes every byte of the UTF-8 text but the
  letters, the digits and \<^verbatim>\<open>- _ . ! ~ * ' ( )\<close>, with upper-case hexadecimal digits.
\<close>

definition qs_unreserved :: "char \<Rightarrow> bool" where
  "qs_unreserved c \<longleftrightarrow>
     c \<in> set ''ABCDEFGHIJKLMNOPQRSTUVWXYZabcdefghijklmnopqrstuvwxyz0123456789-_.!~*()''
     \<or> c = CHR 0x27"

definition qsEscape :: "string \<Rightarrow> string" where
  "qsEscape s =
     concat (map (\<lambda>c. if qs_unreserved c then [c]
                       else [CHR ''%'', digit_char (of_char c div 16), digit_char (of_char c mod 16)]) s)"

text \<open>\<^verbatim>\<open>encodeStringified\<close>: a string is escaped, a number and a boolean are printed, any
  other value gives the empty string.\<close>

fun encodeStringified :: "jsval \<Rightarrow> string" where
  "encodeStringified (JStr s) = (if s = [] then [] else qsEscape s)"
| "encodeStringified (JNum n) = show_int n"
| "encodeStringified (JBool b) = (if b then ''true'' else ''false'')"
| "encodeStringified _ = []"

text \<open>The loop of \<^verbatim>\<open>stringify\<close> over the keys, with the string \<^verbatim>\<open>fields\<close> built so
  far. An array value gives one entry per element and an empty array none.\<close>

fun qs_fields :: "string \<Rightarrow> string \<Rightarrow> string \<Rightarrow> (string \<times> jsval) list \<Rightarrow> string" where
  "qs_fields sep eq fields [] = fields"
| "qs_fields sep eq fields ((k, v) # kvs) =
     (let ks = encodeStringified (JStr k) @ eq in
      case v of
        JArr xs ps \<Rightarrow>
          (if xs = [] then qs_fields sep eq fields kvs
           else qs_fields sep eq
                  ((if fields \<noteq> [] then fields @ sep else fields)
                     @ join_with sep (map (\<lambda>x. ks @ encodeStringified x) xs)) kvs)
      | _ \<Rightarrow>
          qs_fields sep eq
            ((if fields \<noteq> [] then fields @ sep else fields) @ ks @ encodeStringified v) kvs)"

text \<open>\<^verbatim>\<open>QueryString.stringify(obj, sep, eq)\<close>; an omitted or empty separator is
  \<^verbatim>\<open>&\<close>, an omitted or empty assignment sign is \<^verbatim>\<open>=\<close>. A value that is \<^verbatim>\<open>null\<close> or
  not of type object (a function is not) gives the empty string.\<close>

definition QueryString_stringify :: "jsval \<Rightarrow> string option \<Rightarrow> string option \<Rightarrow> string" where
  "QueryString_stringify obj sep eq =
     (let sep' = (case sep of Some s \<Rightarrow> if s = [] then ''&'' else s | None \<Rightarrow> ''&'');
          eq' = (case eq of Some s \<Rightarrow> if s = [] then ''='' else s | None \<Rightarrow> ''='')
      in if isObject obj \<and> \<not> isFunction obj then qs_fields sep' eq' [] (own_props obj) else [])"

subsection \<open>\<^verbatim>\<open>JSON.stringify\<close>\<close>

definition json_escape_char :: "char \<Rightarrow> string" where
  "json_escape_char c =
     (if c = CHR 0x22 then [CHR 0x5C, CHR 0x22]
      else if c = CHR 0x5C then [CHR 0x5C, CHR 0x5C]
      else if c = CHR 0x08 then [CHR 0x5C, CHR ''b'']
      else if c = CHR 0x0C then [CHR 0x5C, CHR ''f'']
      else if c = CHR 0x0A then [CHR 0x5C, CHR ''n'']
      else if c = CHR 0x0D then [CHR 0x5C, CHR ''r'']
      else if c = CHR 0x09 then [CHR 0x5C, CHR ''t'']
      else if (of_char c :: nat) < 32
        then [CHR 0x5C, CHR ''u'', CHR ''0'', CHR ''0'',
              digit_char_lower (of_char c div 16), digit_char_lower (of_char c mod 16)]
      else [c])"

definition json_quote :: "string \<Rightarrow> string" where
  "json_quote s = CHR 0x22 # concat (map json_escape_char s) @ [CHR 0x22]"

text \<open>
  The serialisation of a value, \<open>None\<close> where \<^verbatim>\<open>JSON.stringify\<close> gives
  \<^verbatim>\<open>undefined\<close>: an \<^verbatim>\<open>undefined\<close> or a function is left out of an object and is
  \<^verbatim>\<open>null\<close> in an array. An array's extra named properties are not serialised.
\<close>

fun json_ser :: "jsval \<Rightarrow> string option"
  and json_elems :: "jsval list \<Rightarrow> string list"
  and json_members :: "(string \<times> jsval) list \<Rightarrow> string list" where
  "json_ser JUndefined = None"
| "json_ser JNull = Some ''null''"
| "json_ser (JBool b) = Some (if b then ''true'' else ''false'')"
| "json_ser (JNum n) = Some (show_int n)"
| "json_ser (JStr s) = Some (json_quote s)"
| "json_ser (JArr xs ps) = Some (''['' @ join_with '','' (json_elems xs) @ '']'')"
| "json_ser (JObj kvs) = Some (''{'' @ join_with '','' (json_members kvs) @ ''}'')"
| "json_ser (JFun src) = None"
| "json_ser (JQuery s ps) = Some (''{'' @ join_with '','' (json_members ps) @ ''}'')"
| "json_elems [] = []"
| "json_elems (x # xs) = (case json_ser x of None \<Rightarrow> ''null'' | Some s \<Rightarrow> s) # json_elems xs"
| "json_members [] = []"
| "json_members ((k, v) # kvs) =
     (case json_ser v of
        None \<Rightarrow> json_members kvs
      | Some s \<Rightarrow> (json_quote k @ '':'' @ s) # json_members kvs)"

definition JSON_stringify :: "jsval \<Rightarrow> jsval" where
  "JSON_stringify v = (case json_ser v of None \<Rightarrow> JUndefined | Some s \<Rightarrow> JStr s)"

section \<open>The client\<close>

subsection \<open>Construction\<close>

text \<open>\<^verbatim>\<open>this.options\<close>. The fields \<open>user\<close> and \<open>password\<close> are \<^verbatim>\<open>undefined\<close> unless the
  constructor sets them.\<close>

record client_options =
  host :: jsval
  port :: jsval
  core :: jsval
  rootPath :: jsval
  protocol :: jsval
  requestHandler :: jsval
  user :: jsval
  password :: jsval

record client =
  options :: client_options
  SEARCH_PATH :: jsval
  TERMS_PATH :: jsval
  SPELL_PATH :: jsval
  MLT_PATH :: jsval
  UPDATE_PATH :: jsval
  UPDATE_EXTRACT_PATH :: jsval
  PING_PATH :: jsval
  SUGGEST_PATH :: jsval

text \<open>\<^verbatim>\<open>new Client(options)\<close>. Reading \<^verbatim>\<open>options.host\<close> of \<^verbatim>\<open>undefined\<close> or
  \<^verbatim>\<open>null\<close> throws a TypeError.\<close>

definition Client :: "jsval \<Rightarrow> js_error + client" where
  "Client opts =
     (if isNullish opts
      then Inl (TypeError (''Cannot read properties of '' @ toString opts @ '' (reading 'host')''))
      else
        let authenticated = truthy (get_prop opts ''user'') \<and> truthy (get_prop opts ''password'');
            handler = js_or (get_prop opts ''requestHandler'') (JStr ''select'')
        in Inr \<lparr> options = \<lparr>
                   host = js_or (get_prop opts ''host'') (JStr ''127.0.0.1''),
                   port = js_or (get_prop opts ''port'') (JStr ''8983''),
                   core = js_or (get_prop opts ''core'') (JStr []),
                   rootPath = js_or (get_prop opts ''rootPath'') (JStr ''solr''),
                   protocol = js_or (get_prop opts ''protocol'') (JStr ''http''),
                   requestHandler = handler,
                   user = (if authenticated then get_prop opts ''user'' else JUndefined),
                   password = (if authenticated then get_prop opts ''password'' else JUndefined) \<rparr>,
                 SEARCH_PATH = handler,
                 TERMS_PATH = JStr ''terms'',
                 SPELL_PATH = JStr ''spell'',
                 MLT_PATH = JStr ''mlt'',
                 UPDATE_PATH = JStr ''update'',
                 UPDATE_EXTRACT_PATH = JStr ''update/extract'',
                 PING_PATH = JStr ''admin/ping'',
                 SUGGEST_PATH = JStr ''suggest'' \<rparr>)"

subsection \<open>\<^verbatim>\<open>_makeHostUrl\<close>\<close>

definition makeHostUrl :: "jsval \<Rightarrow> jsval \<Rightarrow> jsval \<Rightarrow> jsval \<Rightarrow> jsval \<Rightarrow> string" where
  "makeHostUrl protocol' host' port' user' password' =
     (let auth = (if truthy user' \<and> truthy password'
                  then toString user' @ '':'' @ toString password' @ ''@''
                  else [])
      in if truthy port'
         then toString protocol' @ ''://'' @ auth @ toString host' @ '':'' @ toString port'
         else toString protocol' @ ''://'' @ auth @ toString host')"

subsection \<open>The transport, the environment and what a call does\<close>

text \<open>
  Modelled from the spec: the HTTP transport \<^verbatim>\<open>lib/modules/fetchWithTimeout\<close>, which is
  not among the sources. The spec describes it as
  \<^verbatim>\<open>(url, {method, headers, body}, timeoutMs) -> promise-of-response\<close>, where the response
  has a \<^verbatim>\<open>.json()\<close> accessor, and its failures (connection failure, timeout expiry) as
  errors. So one dispatch ends in one of four ways: the promise rejects with an error; or
  it resolves with a response whose \<^verbatim>\<open>json()\<close> throws, returns a promise that rejects,
  or gives the parsed body.
\<close>

datatype json_outcome =
    JsonThrows js_error
  | JsonRejects js_error
  | JsonResolves jsval

datatype outcome =
    FetchRejects js_error
  | FetchResolves json_outcome

text \<open>What lies outside the client: the transport, as a function of what it is handed,
  and the caller's functions, which return (\<open>None\<close>) or throw when they are invoked.\<close>

record world =
  fetch :: "string \<Rightarrow> jsval \<Rightarrow> jsval \<Rightarrow> outcome"
  invoke :: "jsval \<Rightarrow> jsval list \<Rightarrow> js_error option"

text \<open>\<^verbatim>\<open>process.env\<close>: a variable is a string or is not set.\<close>

record env =
  SOLR_TIMEOUT :: "string option"
  SOLR_NODE_PERFORMANCE_LOGS :: "string option"

definition env_value :: "string option \<Rightarrow> jsval" where
  "env_value v = (case v of None \<Rightarrow> JUndefined | Some s \<Rightarrow> JStr s)"

text \<open>One call of the transport: what it was handed.\<close>

record request =
  req_url :: string
  req_options :: jsval
  req_timeout :: jsval

text \<open>How a promise ends.\<close>

datatype settled = Resolved jsval | Rejected js_error

datatype returned = RetUndefined | RetPromise settled

datatype completion = Returned returned | Threw js_error

text \<open>
  What one call of an operation does: how the call itself completes (it returns, or it
  throws to its caller), the dispatches it makes, the invocations of the caller's
  functions in order (the function and its arguments), the rejections that no handler
  receives, and the writes to objects the caller passed in (the argument's position and
  the object after the write). The debug lines sent to the logger and the performance
  line printed when \<^verbatim>\<open>SOLR_NODE_PERFORMANCE_LOGS\<close> is \<^verbatim>\<open>"true"\<close> are not recorded.
\<close>

record run =
  completion :: completion
  dispatched :: "request list"
  invoked :: "(jsval \<times> jsval list) list"
  unhandled :: "js_error list"
  mutated :: "(nat \<times> jsval) list"

subsection \<open>\<^verbatim>\<open>_callSolrServer\<close>\<close>

text \<open>The first \<^verbatim>\<open>then\<close>: the promise \<^verbatim>\<open>result\<close>. A synchronous throw of
  \<^verbatim>\<open>res.json()\<close> is caught and thrown again as \<^verbatim>\<open>new Error(error)\<close>; a promise it
  returns is adopted.\<close>

fun then_json :: "outcome \<Rightarrow> settled" where
  "then_json (FetchRejects err) = Rejected err"
| "then_json (FetchResolves (JsonThrows error)) = Rejected (Error (error_toString error))"
| "then_json (FetchResolves (JsonRejects err)) = Rejected err"
| "then_json (FetchResolves (JsonResolves json)) = Resolved json"

text \<open>The chain \<^verbatim>\<open>result.then(json => finalCallback(null, json)).catch(err =>
  finalCallback(err.message))\<close>: the handler of \<^verbatim>\<open>catch\<close> receives the rejection of
  \<^verbatim>\<open>result\<close> and also what the first handler throws; what it throws itself no handler
  receives. The result is the invocations and the unhandled rejections.\<close>

definition catch_callback ::
  "world \<Rightarrow> jsval \<Rightarrow> js_error \<Rightarrow> (jsval \<times> jsval list) list \<times> js_error list" where
  "catch_callback w finalCallback err =
     ([(finalCallback, [JStr (err_message err)])],
      (case invoke w finalCallback [JStr (err_message err)] of None \<Rightarrow> [] | Some e \<Rightarrow> [e]))"

definition then_callback ::
  "world \<Rightarrow> jsval \<Rightarrow> settled \<Rightarrow> (jsval \<times> jsval list) list \<times> js_error list" where
  "then_callback w finalCallback result =
     (case result of
        Resolved json \<Rightarrow>
          (case invoke w finalCallback [JNull, json] of
             None \<Rightarrow> ([(finalCallback, [JNull, json])], [])
           | Some thrown \<Rightarrow>
               (let (calls, lost) = catch_callback w finalCallback thrown
                in ((finalCallback, [JNull, json]) # calls, lost)))
      | Rejected err \<Rightarrow> catch_callback w finalCallback err)"

definition callSolrServer :: "world \<Rightarrow> env \<Rightarrow> string \<Rightarrow> jsval \<Rightarrow> jsval \<Rightarrow> run" where
  "callSolrServer w e requestFullPath fetchOptions finalCallback =
     (let defaultTimeout = js_or (env_value (SOLR_TIMEOUT e)) (JStr ''20000'');
          timeout = js_or (if isNullish fetchOptions then JUndefined
                           else get_prop fetchOptions ''timeout'') defaultTimeout;
          result = then_json (fetch w requestFullPath fetchOptions timeout);
          sent = \<lparr> req_url = requestFullPath, req_options = fetchOptions, req_timeout = timeout \<rparr>
      in if isFunction finalCallback
         then (let (calls, lost) = then_callback w finalCallback result
               in \<lparr> completion = Returned RetUndefined, dispatched = [sent],
                      invoked = calls, unhandled = lost, mutated = [] \<rparr>)
         else \<lparr> completion = Returned (RetPromise result), dispatched = [sent],
                invoked = [], unhandled = [], mutated = [] \<rparr>)"

subsection \<open>\<^verbatim>\<open>_requestGet\<close> and \<^verbatim>\<open>_requestPost\<close>\<close>

definition requestGet :: "world \<Rightarrow> env \<Rightarrow> client \<Rightarrow> jsval \<Rightarrow> jsval \<Rightarrow> jsval \<Rightarrow> run" where
  "requestGet w e c path query' finalCallback =
     (let params = (case query' of
                      JQuery s ps \<Rightarrow> s
                    | JStr s \<Rightarrow> s
                    | _ \<Rightarrow> ''q=*:*'');
          requestPrefixUrl =
            makeHostUrl (protocol (options c)) (host (options c)) (port (options c))
              (user (options c)) (password (options c));
          requestPrefixUrl =
            requestPrefixUrl @ ''/'' @ js_join [rootPath (options c), core (options c), path] ''/'';
          requestFullPath = requestPrefixUrl @ ''?'' @ params;
          options' = JObj [(''method'', JStr ''GET''),
                           (''headers'', JObj [(''accept'', JStr ''application/json; charset=utf-8'')])]
      in callSolrServer w e requestFullPath options' finalCallback)"

definition requestPost ::
  "world \<Rightarrow> env \<Rightarrow> client \<Rightarrow> jsval \<Rightarrow> jsval \<Rightarrow> jsval \<Rightarrow> jsval \<Rightarrow> run" where
  "requestPost w e c path data urlOptions finalCallback =
     (let params = (case urlOptions of
                      JStr s \<Rightarrow> s
                    | _ \<Rightarrow> if isObject urlOptions
                           then QueryString_stringify urlOptions None None
                           else []);
          requestPrefixUrl =
            makeHostUrl (protocol (options c)) (host (options c)) (port (options c))
              (user (options c)) (password (options c));
          requestPrefixUrl =
            requestPrefixUrl @ ''/'' @ js_join [rootPath (options c), core (options c), path] ''/'';
          requestFullPath = requestPrefixUrl @ ''?'' @ params;
          options' = JObj [(''method'', JStr ''POST''),
                           (''body'', JSON_stringify data),
                           (''headers'', JObj [(''accept'', JStr ''application/json; charset=utf-8''),
                                               (''content-type'', JStr ''application/json; charset=utf-8'')])]
      in callSolrServer w e requestFullPath options' finalCallback)"

subsection \<open>The public operations\<close>

text \<open>
  An operation is called with a list of arguments: \<^verbatim>\<open>arguments.length\<close> is its length,
  and a parameter beyond it is \<^verbatim>\<open>undefined\<close>.
\<close>

definition arg :: "jsval list \<Rightarrow> nat \<Rightarrow> jsval" where
  "arg args i = (if i < length args then args ! i else JUndefined)"

text \<open>The default options \<^verbatim>\<open>{ commit: true }\<close>.\<close>

definition commit_true :: jsval where
  "commit_true = JObj [(''commit'', JBool True)]"





definition update :: "world \<Rightarrow> env \<Rightarrow> client \<Rightarrow> jsval list \<Rightarrow> run" where
  "update w e c args =
     (let data = arg args 0; options' = arg args 1; finalCallback = arg args 2;
          shifted = (length args < 3 \<and> (\<not> truthy options' \<or> isFunction options'));
          finalCallback = (if shifted then options' else finalCallback);
          options' = (if shifted then commit_true else options');
          bodyData = (if isArray data then data
                      else JObj [(''add'', JObj [(''doc'', data), (''overwrite'', JBool True)])])
      in requestPost w e c (UPDATE_PATH c) bodyData options' finalCallback)"

text \<open>
  The assignment \<^verbatim>\<open>options.wt = "json"\<close> on a value that is neither \<^verbatim>\<open>null\<close> nor
  \<^verbatim>\<open>undefined\<close>: an existing property keeps its place, a new one comes last. The module
  is not in strict mode, so on a boolean, a number or a string the assignment does
  nothing. The properties of a function are not represented (nothing the module calls
  reads them).
\<close>

fun assign :: "(string \<times> jsval) list \<Rightarrow> string \<Rightarrow> jsval \<Rightarrow> (string \<times> jsval) list" where
  "assign [] k v = [(k, v)]"
| "assign ((k', v') # kvs) k v = (if k' = k then (k, v) # kvs else (k', v') # assign kvs k v)"

fun set_prop :: "jsval \<Rightarrow> string \<Rightarrow> jsval \<Rightarrow> jsval" where
  "set_prop (JObj kvs) k v = JObj (assign kvs k v)"
| "set_prop (JArr xs ps) k v = JArr xs (assign ps k v)"
| "set_prop (JQuery s ps) k v = JQuery s (assign ps k v)"
| "set_prop other k v = other"

definition updateExtract :: "world \<Rightarrow> env \<Rightarrow> client \<Rightarrow> jsval list \<Rightarrow> run" where
  "updateExtract w e c args =
     (let options' = arg args 0; finalCallback = arg args 1;
          shifted = (length args < 2 \<and> isFunction options');
          finalCallback = (if shifted then options' else finalCallback);
          options' = (if shifted then commit_true else options')
      in if isNullish options'
         then \<lparr> completion =
                  Threw (TypeError (''Cannot set properties of '' @ toString options' @ '' (setting 'wt')'')),
                dispatched = [], invoked = [], unhandled = [], mutated = [] \<rparr>
         else
           (let written = set_prop options' ''wt'' (JStr ''json'');
                bodyData = JObj [(''add'', JObj [(''doc'', JNull), (''overwrite'', JBool True)])]
            in (requestPost w e c (UPDATE_EXTRACT_PATH c) bodyData written finalCallback)
                 \<lparr> mutated := (if \<not> shifted \<and> isObject options' then [(0, written)] else []) \<rparr>))"

definition delete :: "world \<Rightarrow> env \<Rightarrow> client \<Rightarrow> jsval list \<Rightarrow> run" where
  "delete w e c args =
     (let query' = arg args 0; options' = arg args 1; finalCallback = arg args 2;
          shifted = (length args < 3 \<and> isFunction options');
          finalCallback = (if shifted then options' else finalCallback);
          options' = (if shifted then commit_true else options');
          bodyQuery = (case query' of
                         JStr s \<Rightarrow> s
                       | _ \<Rightarrow> if isObject query'
                              then QueryString_stringify query' (Some '' AND '') (Some '':'')
                              else []);
          bodyData = JObj [(''delete'', JObj [(''query'', JStr bodyQuery)])]
      in requestPost w e c (UPDATE_PATH c) bodyData options' finalCallback)"

definition deleteByIds :: "world \<Rightarrow> env \<Rightarrow> client \<Rightarrow> jsval list \<Rightarrow> run" where
  "deleteByIds w e c args =
     (let ids = arg args 0; options' = arg args 1; finalCallback = arg args 2;
          shifted = (length args < 3 \<and> isFunction options');
          finalCallback = (if shifted then options' else finalCallback);
          options' = (if shifted then commit_true else options')
      in case ids of
           JArr xs ps \<Rightarrow>
             (let toDelete = map (\<lambda>id. JObj [(''id'', id)]) xs;
                  bodyData = JObj [(''delete'', JArr toDelete [])]
              in requestPost w e c (UPDATE_PATH c) bodyData options' finalCallback)
         | _ \<Rightarrow> \<lparr> completion = Threw (Error ''ids must be an array''),
                  dispatched = [], invoked = [], unhandled = [], mutated = [] \<rparr>)"


definition commit :: "world \<Rightarrow> env \<Rightarrow> client \<Rightarrow> jsval list \<Rightarrow> run" where
  "commit w e c args = requestPost w e c (UPDATE_PATH c) (JObj []) commit_true (arg args 0)"





section \<open>What the specification says, and what a run shows\<close>

subsection \<open>Reading a run\<close>

definition sent_urls :: "run \<Rightarrow> string list" where
  "sent_urls r = map req_url (dispatched r)"

definition sent_timeouts :: "run \<Rightarrow> jsval list" where
  "sent_timeouts r = map req_timeout (dispatched r)"

definition sent_methods :: "run \<Rightarrow> jsval list" where
  "sent_methods r = map (\<lambda>q. get_prop (req_options q) ''method'') (dispatched r)"

definition sent_bodies :: "run \<Rightarrow> jsval list" where
  "sent_bodies r = map (\<lambda>q. get_prop (req_options q) ''body'') (dispatched r)"


subsection \<open>The URL template of the specification\<close>

text \<open>
  \<^verbatim>\<open>{protocol}://{user:password@ if both present}{host}{:port if port is truthy}/{rootPath}/{core}/{operationPath}?{queryString}\<close>,
  over a configuration. A credential is present when it is truthy.
\<close>

definition spec_url :: "client_options \<Rightarrow> string \<Rightarrow> string \<Rightarrow> string" where
  "spec_url cfg operationPath queryString =
     toString (protocol cfg) @ ''://''
       @ (if truthy (user cfg) \<and> truthy (password cfg)
          then toString (user cfg) @ '':'' @ toString (password cfg) @ ''@'' else [])
       @ toString (host cfg)
       @ (if truthy (port cfg) then '':'' @ toString (port cfg) else [])
       @ ''/'' @ toString (rootPath cfg) @ ''/'' @ toString (core cfg) @ ''/'' @ operationPath
       @ ''?'' @ queryString"



subsection \<open>The timeout precedence of the specification\<close>

text \<open>The explicit per-call timeout if set, otherwise the environment's default if set,
  otherwise \<^verbatim>\<open>"20000"\<close>. A value is set when it is truthy.\<close>

definition spec_timeout :: "jsval \<Rightarrow> string option \<Rightarrow> jsval" where
  "spec_timeout per_call configured =
     (if truthy per_call then per_call
      else case configured of
             Some s \<Rightarrow> if s \<noteq> [] then JStr s else JStr ''20000''
           | None \<Rightarrow> JStr ''20000'')"

subsection \<open>The two calling conventions\<close>








subsection \<open>Concrete surroundings\<close>

text \<open>A transport that answers every request with the body \<^verbatim>\<open>{"ok": true}\<close>, one that
  fails to connect, and callers' functions that return.\<close>

definition ok_world :: world where
  "ok_world = \<lparr> fetch = (\<lambda>url opts timeout. FetchResolves (JsonResolves (JObj [(''ok'', JBool True)]))),
                invoke = (\<lambda>f xs. None) \<rparr>"



definition no_env :: env where
  "no_env = \<lparr> SOLR_TIMEOUT = None, SOLR_NODE_PERFORMANCE_LOGS = None \<rparr>"

text \<open>The client \<^verbatim>\<open>new Client({})\<close>.\<close>

definition default_client :: client where
  "default_client =
     \<lparr> options = \<lparr> host = JStr ''127.0.0.1'', port = JStr ''8983'', core = JStr [],
                    rootPath = JStr ''solr'', protocol = JStr ''http'',
                    requestHandler = JStr ''select'', user = JUndefined, password = JUndefined \<rparr>,
       SEARCH_PATH = JStr ''select'', TERMS_PATH = JStr ''terms'', SPELL_PATH = JStr ''spell'',
       MLT_PATH = JStr ''mlt'', UPDATE_PATH = JStr ''update'',
       UPDATE_EXTRACT_PATH = JStr ''update/extract'', PING_PATH = JStr ''admin/ping'',
       SUGGEST_PATH = JStr ''suggest'' \<rparr>"






text \<open>An environment that sets \<^verbatim>\<open>SOLR_TIMEOUT\<close>.\<close>

definition slow_env :: env where
  "slow_env = \<lparr> SOLR_TIMEOUT = Some ''5000'', SOLR_NODE_PERFORMANCE_LOGS = None \<rparr>"

subsection \<open>Aids to the statements\<close>


text \<open>A text between double quotes, for writing JSON texts.\<close>

definition dq :: "string \<Rightarrow> string" where
  "dq s = CHR 0x22 # s @ [CHR 0x22]"

text \<open>The entries \<^verbatim>\<open>querystring.stringify\<close> makes of one property: one per element
  of an array value, otherwise one; the key and the value escaped.\<close>

definition qs_entries :: "string \<Rightarrow> string \<times> jsval \<Rightarrow> string list" where
  "qs_entries eq kv =
     (case snd kv of
        JArr xs ps \<Rightarrow> map (\<lambda>x. encodeStringified (JStr (fst kv)) @ eq @ encodeStringified x) xs
      | v \<Rightarrow> [encodeStringified (JStr (fst kv)) @ eq @ encodeStringified v])"

section \<open>Every call that reaches the dispatch is one call of \<^verbatim>\<open>_callSolrServer\<close>\<close>

lemma callSolrServer_dispatched:
  "dispatched (callSolrServer w e url fo cb) =
     [\<lparr> req_url = url, req_options = fo,
        req_timeout = js_or (if isNullish fo then JUndefined else get_prop fo ''timeout'')
                        (js_or (env_value (SOLR_TIMEOUT e)) (JStr ''20000'')) \<rparr>]"
  by (simp add: callSolrServer_def Let_def split: prod.split)














section \<open>What a request holds\<close>

lemma requestPost_body:
  "sent_bodies (requestPost w e c path d uo cb) = [JSON_stringify d]"
  by (simp add: requestPost_def Let_def sent_bodies_def callSolrServer_dispatched get_prop_def)

lemma requestPost_method:
  "sent_methods (requestPost w e c path d uo cb) = [JStr ''POST'']"
  by (simp add: requestPost_def Let_def sent_methods_def callSolrServer_dispatched get_prop_def)

lemma truthy_not_nullish: "truthy v \<Longrightarrow> \<not> isNullish v"
  by (cases v) simp_all

lemma Client_fields:
  assumes "Client opts = Inr c"
  shows "\<not> isNullish (rootPath (options c))" "\<not> isNullish (core (options c))"
    "truthy (port (options c))" "truthy (requestHandler (options c))"
    "SEARCH_PATH c = requestHandler (options c)" "TERMS_PATH c = JStr ''terms''"
    "SPELL_PATH c = JStr ''spell''" "MLT_PATH c = JStr ''mlt''" "UPDATE_PATH c = JStr ''update''"
    "UPDATE_EXTRACT_PATH c = JStr ''update/extract''" "PING_PATH c = JStr ''admin/ping''"
    "SUGGEST_PATH c = JStr ''suggest''"
proof -
  have js_or_not_nullish: "\<And>a s. \<not> isNullish (js_or a (JStr s))"
    using truthy_not_nullish by (simp add: js_or_def)
  have js_or_truthy: "\<And>a s. s \<noteq> [] \<Longrightarrow> truthy (js_or a (JStr s))"
    by (simp add: js_or_def)
  from assms have c: "\<not> isNullish opts" and
    "c = \<lparr> options = \<lparr>
                   host = js_or (get_prop opts ''host'') (JStr ''127.0.0.1''),
                   port = js_or (get_prop opts ''port'') (JStr ''8983''),
                   core = js_or (get_prop opts ''core'') (JStr []),
                   rootPath = js_or (get_prop opts ''rootPath'') (JStr ''solr''),
                   protocol = js_or (get_prop opts ''protocol'') (JStr ''http''),
                   requestHandler = js_or (get_prop opts ''requestHandler'') (JStr ''select''),
                   user = (if truthy (get_prop opts ''user'') \<and> truthy (get_prop opts ''password'')
                           then get_prop opts ''user'' else JUndefined),
                   password = (if truthy (get_prop opts ''user'') \<and> truthy (get_prop opts ''password'')
                               then get_prop opts ''password'' else JUndefined) \<rparr>,
                 SEARCH_PATH = js_or (get_prop opts ''requestHandler'') (JStr ''select''),
                 TERMS_PATH = JStr ''terms'',
                 SPELL_PATH = JStr ''spell'',
                 MLT_PATH = JStr ''mlt'',
                 UPDATE_PATH = JStr ''update'',
                 UPDATE_EXTRACT_PATH = JStr ''update/extract'',
                 PING_PATH = JStr ''admin/ping'',
                 SUGGEST_PATH = JStr ''suggest'' \<rparr>"
    by (auto simp: Client_def Let_def split: if_splits)
  then show "\<not> isNullish (rootPath (options c))" "\<not> isNullish (core (options c))"
    "truthy (port (options c))" "truthy (requestHandler (options c))"
    "SEARCH_PATH c = requestHandler (options c)" "TERMS_PATH c = JStr ''terms''"
    "SPELL_PATH c = JStr ''spell''" "MLT_PATH c = JStr ''mlt''" "UPDATE_PATH c = JStr ''update''"
    "UPDATE_EXTRACT_PATH c = JStr ''update/extract''" "PING_PATH c = JStr ''admin/ping''"
    "SUGGEST_PATH c = JStr ''suggest''"
    using js_or_not_nullish js_or_truthy by simp_all
qed

lemma prefix_url:
  assumes "Client opts = Inr c" and "\<not> isNullish path"
  shows "makeHostUrl (protocol (options c)) (host (options c)) (port (options c))
             (user (options c)) (password (options c))
           @ ''/'' @ js_join [rootPath (options c), core (options c), path] ''/'' @ ''?'' @ qs
         = spec_url (options c) (toString path) qs"
  using Client_fields(1-3) [OF assms(1)] assms(2)
  by (simp add: makeHostUrl_def spec_url_def js_join_def Let_def)

lemma requestPost_url:
  assumes "Client opts = Inr c" and "\<not> isNullish path"
  shows "sent_urls (requestPost w e c path d uo cb) =
           [spec_url (options c) (toString path)
              (case uo of JStr s \<Rightarrow> s
               | _ \<Rightarrow> if isObject uo then QueryString_stringify uo None None else [])]"
  using prefix_url [OF assms]
  by (simp add: requestPost_def Let_def sent_urls_def callSolrServer_dispatched)


lemma stringify_commit_true: "QueryString_stringify commit_true None None = ''commit=true''"
  by (simp add: QueryString_stringify_def commit_true_def qsEscape_def qs_unreserved_def)

lemma Client_default: "Client (JObj []) = Inr default_client"
  by (simp add: Client_def default_client_def get_prop_def js_or_def Let_def)

section \<open>The claim about \<^verbatim>\<open>deleteByIds\<close>\<close>

text \<open>
  C4. \<^verbatim>\<open>deleteByIds\<close> applied to an array posts the body
  \<^verbatim>\<open>{delete: [{id: x}, ...]}\<close>, one \<^verbatim>\<open>{id}\<close> object per element of the array, in
  order; applied to anything that is not an array (a missing argument too) it throws the
  error \<^verbatim>\<open>ids must be an array\<close> and nothing is dispatched and no function invoked.
\<close>

theorem deleteByIds_body:
  "(arg args 0 = JArr xs ps \<longrightarrow>
      sent_methods (deleteByIds w e c args) = [JStr ''POST'']
      \<and> sent_bodies (deleteByIds w e c args) =
          [JSON_stringify (JObj [(''delete'', JArr (map (\<lambda>id. JObj [(''id'', id)]) xs) [])])])
   \<and> (\<not> isArray (arg args 0) \<longrightarrow>
      completion (deleteByIds w e c args) = Threw (Error ''ids must be an array'')
      \<and> dispatched (deleteByIds w e c args) = []
      \<and> invoked (deleteByIds w e c args) = [])"
proof (intro conjI impI)
  assume a: "arg args 0 = JArr xs ps"
  show "sent_methods (deleteByIds w e c args) = [JStr ''POST'']"
    using a by (simp add: deleteByIds_def Let_def requestPost_method)
  show "sent_bodies (deleteByIds w e c args) =
          [JSON_stringify (JObj [(''delete'', JArr (map (\<lambda>id. JObj [(''id'', id)]) xs) [])])]"
    using a by (simp add: deleteByIds_def Let_def requestPost_body)
next
  assume n: "\<not> isArray (arg args 0)"
  then show "completion (deleteByIds w e c args) = Threw (Error ''ids must be an array'')"
    by (cases "arg args 0") (simp_all add: deleteByIds_def Let_def)
  from n show "dispatched (deleteByIds w e c args) = []"
    by (cases "arg args 0") (simp_all add: deleteByIds_def Let_def)
  from n show "invoked (deleteByIds w e c args) = []"
    by (cases "arg args 0") (simp_all add: deleteByIds_def Let_def)
qed

theorem deleteByIds_body_witness:
  "sent_bodies (deleteByIds ok_world no_env default_client [JArr [JStr ''a'', JStr ''b''] []]) =
     [JStr (''{'' @ dq ''delete'' @ '':[{'' @ dq ''id'' @ '':'' @ dq ''a'' @ ''},{''
             @ dq ''id'' @ '':'' @ dq ''b'' @ ''}]}'')]
   \<and> completion (deleteByIds ok_world no_env default_client [JStr ''a'']) =
       Threw (Error ''ids must be an array'')
   \<and> dispatched (deleteByIds ok_world no_env default_client [JStr ''a'']) = []"
  using deleteByIds_body [of "[JArr [JStr ''a'', JStr ''b''] []]" "[JStr ''a'', JStr ''b'']" "[]"
      ok_world no_env default_client]
    deleteByIds_body [of "[JStr ''a'']" "[]" "[]" ok_world no_env default_client]
  by (simp add: arg_def JSON_stringify_def json_quote_def json_escape_char_def dq_def)

section \<open>The query that \<^verbatim>\<open>delete\<close> builds from an object\<close>

lemma join_with_Cons: "join_with sep (x # xs) = (if xs = [] then x else x @ sep @ join_with sep xs)"
  by (cases xs) simp_all

lemma join_with_append:
  "join_with sep (xs @ ys) =
     (if xs = [] then join_with sep ys
      else if ys = [] then join_with sep xs
      else join_with sep xs @ sep @ join_with sep ys)"
  by (induction xs) (auto simp: join_with_Cons)

lemma join_with_empty_iff:
  assumes "\<forall>x \<in> set xs. x \<noteq> []"
  shows "join_with sep xs = [] \<longleftrightarrow> xs = []"
  using assms by (cases xs) (auto simp: join_with_Cons)

lemma qs_entries_nonempty:
  assumes "eq \<noteq> []"
  shows "\<forall>x \<in> set (qs_entries eq kv). x \<noteq> []"
  using assms by (auto simp: qs_entries_def split: jsval.splits)

lemma qs_fields_step:
  "qs_fields sep eq built (kv # kvs) =
     (if qs_entries eq kv = [] then qs_fields sep eq built kvs
      else qs_fields sep eq
             ((if built \<noteq> [] then built @ sep else built) @ join_with sep (qs_entries eq kv)) kvs)"
  by (cases kv; cases "snd kv") (auto simp: qs_entries_def Let_def)

lemma qs_fields_join:
  assumes "eq \<noteq> []" and "\<forall>x \<in> set es. x \<noteq> []"
  shows "qs_fields sep eq (join_with sep es) kvs =
           join_with sep (es @ concat (map (qs_entries eq) kvs))"
  using assms(2)
proof (induction kvs arbitrary: es)
  case Nil
  then show ?case by simp
next
  case (Cons kv kvs)
  let ?new = "qs_entries eq kv"
  have new: "\<forall>x \<in> set ?new. x \<noteq> []"
    using qs_entries_nonempty [OF assms(1)] .
  show ?case
  proof (cases "?new = []")
    case True
    then show ?thesis
      using Cons by (simp add: qs_fields_step del: qs_fields.simps)
  next
    case False
    have all: "\<forall>x \<in> set (es @ ?new). x \<noteq> []"
      using Cons.prems new by auto
    have "(if join_with sep es \<noteq> [] then join_with sep es @ sep else join_with sep es)
            @ join_with sep ?new = join_with sep (es @ ?new)"
      using False join_with_empty_iff [OF Cons.prems, of sep]
      by (auto simp: join_with_append)
    then have "qs_fields sep eq (join_with sep es) (kv # kvs) =
                 qs_fields sep eq (join_with sep (es @ ?new)) kvs"
      using False by (simp add: qs_fields_step del: qs_fields.simps)
    also have "\<dots> = join_with sep ((es @ ?new) @ concat (map (qs_entries eq) kvs))"
      using Cons.IH [OF all] .
    finally show ?thesis by simp
  qed
qed

lemma stringify_object:
  "QueryString_stringify (JObj kvs) (Some '' AND '') (Some '':'') =
     join_with '' AND '' (concat (map (qs_entries '':'') kvs))"
  using qs_fields_join [of "'':''" "[]" "'' AND ''" kvs]
  by (simp add: QueryString_stringify_def)

section \<open>The claim about the body of \<^verbatim>\<open>delete\<close>\<close>

text \<open>
  C9 does not hold of the code where a key or a value of the object has a character that
  \<^verbatim>\<open>querystring.escape\<close> encodes. What \<^verbatim>\<open>delete\<close> posts is the body
  \<^verbatim>\<open>{delete: {query: q}}\<close>. For a string argument \<open>q\<close> is that string, unchanged, and
  for an argument that is neither a string nor an object \<open>q\<close> is empty, as the claim
  says. For a plain object \<open>q\<close> is the object's entries \<^verbatim>\<open>key:value\<close> joined by
  \<^verbatim>\<open>" AND "\<close> (an array value gives one entry per element), but with every key and
  value percent-encoded by \<^verbatim>\<open>QueryString.stringify\<close>: \<^verbatim>\<open>{field: "value"}\<close> gives
  \<^verbatim>\<open>field:value\<close>, and \<^verbatim>\<open>{title: "hello world"}\<close> gives
  \<^verbatim>\<open>title:hello%20world\<close> in a JSON body that nothing decodes.
\<close>

theorem delete_body:
  "sent_methods (delete w e c args) = [JStr ''POST'']
   \<and> (arg args 0 = JStr s \<longrightarrow>
        sent_bodies (delete w e c args) =
          [JSON_stringify (JObj [(''delete'', JObj [(''query'', JStr s)])])])
   \<and> (arg args 0 = JObj kvs \<longrightarrow>
        sent_bodies (delete w e c args) =
          [JSON_stringify (JObj [(''delete'', JObj [(''query'',
              JStr (join_with '' AND '' (concat (map (qs_entries '':'') kvs))))])])])
   \<and> (\<not> isString (arg args 0) \<and> \<not> isObject (arg args 0) \<longrightarrow>
        sent_bodies (delete w e c args) =
          [JSON_stringify (JObj [(''delete'', JObj [(''query'', JStr [])])])])"
proof (intro conjI impI)
  show "sent_methods (delete w e c args) = [JStr ''POST'']"
    by (simp add: delete_def Let_def requestPost_method)
next
  assume "arg args 0 = JStr s"
  then show "sent_bodies (delete w e c args) =
      [JSON_stringify (JObj [(''delete'', JObj [(''query'', JStr s)])])]"
    by (simp add: delete_def Let_def requestPost_body)
next
  assume "arg args 0 = JObj kvs"
  then show "sent_bodies (delete w e c args) =
      [JSON_stringify (JObj [(''delete'', JObj [(''query'',
          JStr (join_with '' AND '' (concat (map (qs_entries '':'') kvs))))])])]"
    by (simp add: delete_def Let_def requestPost_body stringify_object)
next
  assume "\<not> isString (arg args 0) \<and> \<not> isObject (arg args 0)"
  then show "sent_bodies (delete w e c args) =
      [JSON_stringify (JObj [(''delete'', JObj [(''query'', JStr [])])])]"
    by (cases "arg args 0") (simp_all add: delete_def Let_def requestPost_body)
qed

theorem delete_body_witness:
  "sent_bodies (delete ok_world no_env default_client
       [JObj [(''field'', JStr ''value''), (''year'', JNum 2016)]]) =
     [JStr (''{'' @ dq ''delete'' @ '':{'' @ dq ''query'' @ '':''
             @ dq ''field:value AND year:2016'' @ ''}}'')]
   \<and> sent_bodies (delete ok_world no_env default_client [JStr ''id:1 OR id:2'']) =
     [JStr (''{'' @ dq ''delete'' @ '':{'' @ dq ''query'' @ '':'' @ dq ''id:1 OR id:2'' @ ''}}'')]
   \<and> sent_bodies (delete ok_world no_env default_client [JNum 7]) =
     [JStr (''{'' @ dq ''delete'' @ '':{'' @ dq ''query'' @ '':'' @ dq [] @ ''}}'')]
   \<and> sent_bodies (delete ok_world no_env default_client [JObj [(''title'', JStr ''hello world'')]]) =
     [JStr (''{'' @ dq ''delete'' @ '':{'' @ dq ''query'' @ '':'' @ dq ''title:hello%20world'' @ ''}}'')]
   \<and> sent_bodies (delete ok_world no_env default_client [JObj [(''title'', JStr ''hello world'')]]) \<noteq>
     [JStr (''{'' @ dq ''delete'' @ '':{'' @ dq ''query'' @ '':'' @ dq ''title:hello world'' @ ''}}'')]"
  using delete_body [of ok_world no_env default_client
      "[JObj [(''field'', JStr ''value''), (''year'', JNum 2016)]]" "[]"
      "[(''field'', JStr ''value''), (''year'', JNum 2016)]"]
    delete_body [of ok_world no_env default_client "[JStr ''id:1 OR id:2'']" "''id:1 OR id:2''" "[]"]
    delete_body [of ok_world no_env default_client "[JNum 7]" "[]" "[]"]
    delete_body [of ok_world no_env default_client "[JObj [(''title'', JStr ''hello world'')]]" "[]"
      "[(''title'', JStr ''hello world'')]"]
  by (simp add: arg_def JSON_stringify_def json_quote_def json_escape_char_def dq_def
      qs_entries_def qsEscape_def qs_unreserved_def show_int_def show_nat.simps digit_char_def)

section \<open>The claims about \<^verbatim>\<open>update\<close> and \<^verbatim>\<open>updateExtract\<close>\<close>

lemma map_of_assign: "map_of (assign kvs k v) k = Some v"
  by (induction kvs) auto

lemma get_prop_assign: "get_prop (JObj (assign kvs k v)) k = v"
  by (simp add: get_prop_def map_of_assign)

text \<open>
  C6. For a client made by the constructor, \<^verbatim>\<open>update(data)\<close> with no options and no
  callback sends one POST whose URL has the query string \<^verbatim>\<open>commit=true\<close>; its body is
  \<^verbatim>\<open>{add: {doc: data, overwrite: true}}\<close> when \<open>data\<close> is not an array, and the array
  itself, unchanged, when it is one.
\<close>

theorem update_default_request:
  assumes "Client opts = Inr c"
  shows "sent_methods (update w e c [data]) = [JStr ''POST'']
    \<and> sent_urls (update w e c [data]) = [spec_url (options c) ''update'' ''commit=true'']
    \<and> (\<not> isArray data \<longrightarrow>
         sent_bodies (update w e c [data]) =
           [JSON_stringify (JObj [(''add'', JObj [(''doc'', data), (''overwrite'', JBool True)])])])
    \<and> (isArray data \<longrightarrow> sent_bodies (update w e c [data]) = [JSON_stringify data])"
proof -
  have path: "UPDATE_PATH c = JStr ''update''"
    using Client_fields(9) [OF assms] .
  have shifted: "length [data] < 3 \<and> (\<not> truthy (arg [data] 1) \<or> isFunction (arg [data] 1))"
    by (simp add: arg_def)
  have url: "sent_urls (update w e c [data]) = [spec_url (options c) ''update'' ''commit=true'']"
    using shifted requestPost_url [OF assms, of "JStr ''update''" w e _ commit_true "arg [data] 1"]
    by (simp add: update_def Let_def path stringify_commit_true [unfolded commit_true_def]
        commit_true_def)
  have meth: "sent_methods (update w e c [data]) = [JStr ''POST'']"
    by (simp add: update_def Let_def requestPost_method)
  have body: "sent_bodies (update w e c [data]) =
      [JSON_stringify (if isArray data then data
                       else JObj [(''add'', JObj [(''doc'', data), (''overwrite'', JBool True)])])]"
    by (simp add: update_def Let_def requestPost_body arg_def)
  show ?thesis
    using url meth body by simp
qed

theorem update_default_request_witness:
  "sent_urls (update ok_world no_env default_client [JObj [(''id'', JNum 1)]]) =
     [''http://127.0.0.1:8983/solr//update?commit=true'']
   \<and> sent_bodies (update ok_world no_env default_client [JObj [(''id'', JNum 1)]]) =
     [JStr (''{'' @ dq ''add'' @ '':{'' @ dq ''doc'' @ '':{'' @ dq ''id'' @ '':1},''
             @ dq ''overwrite'' @ '':true}}'')]
   \<and> sent_bodies (update ok_world no_env default_client
          [JArr [JObj [(''id'', JNum 1)], JObj [(''id'', JNum 2)]] []]) =
     [JStr (''[{'' @ dq ''id'' @ '':1},{'' @ dq ''id'' @ '':2}]'')]"
  using update_default_request [OF Client_default, of ok_world no_env "JObj [(''id'', JNum 1)]"]
    update_default_request [OF Client_default, of ok_world no_env
      "JArr [JObj [(''id'', JNum 1)], JObj [(''id'', JNum 2)]] []"]
  by (simp add: spec_url_def default_client_def JSON_stringify_def json_quote_def
      json_escape_char_def dq_def show_int_def show_nat.simps digit_char_def)

text \<open>
  C10. \<^verbatim>\<open>updateExtract\<close> called with no argument, or with a first argument that is
  \<^verbatim>\<open>undefined\<close> or \<^verbatim>\<open>null\<close>, throws a TypeError to its caller: nothing is dispatched
  and no function is invoked. Called with an options object it writes \<^verbatim>\<open>wt = "json"\<close>
  into that object of the caller. The default \<^verbatim>\<open>{commit: true}\<close> is taken only when the
  one argument is a function; then no object of the caller is written, and the query
  string is \<^verbatim>\<open>commit=true&wt=json\<close>.
\<close>

theorem updateExtract_options:
  "(isNullish (arg args 0) \<longrightarrow>
      completion (updateExtract w e c args) =
        Threw (TypeError (''Cannot set properties of '' @ toString (arg args 0) @ '' (setting 'wt')''))
      \<and> dispatched (updateExtract w e c args) = []
      \<and> invoked (updateExtract w e c args) = [])
   \<and> (arg args 0 = JObj kvs \<longrightarrow>
      mutated (updateExtract w e c args) = [(0, JObj (assign kvs ''wt'' (JStr ''json'')))]
      \<and> get_prop (JObj (assign kvs ''wt'' (JStr ''json''))) ''wt'' = JStr ''json'')
   \<and> (args = [JFun f] \<longrightarrow>
      mutated (updateExtract w e c args) = []
      \<and> (\<exists>base. sent_urls (updateExtract w e c args) = [base @ ''?commit=true&wt=json'']))"
proof (intro conjI impI)
  assume n: "isNullish (arg args 0)"
  then have ns: "\<not> (length args < 2 \<and> isFunction (arg args 0))"
    by (cases "arg args 0") simp_all
  show "completion (updateExtract w e c args) =
        Threw (TypeError (''Cannot set properties of '' @ toString (arg args 0) @ '' (setting 'wt')''))"
    using n ns by (auto simp: updateExtract_def Let_def)
  show "dispatched (updateExtract w e c args) = []"
    using n ns by (auto simp: updateExtract_def Let_def)
  show "invoked (updateExtract w e c args) = []"
    using n ns by (auto simp: updateExtract_def Let_def)
next
  assume "arg args 0 = JObj kvs"
  then show "mutated (updateExtract w e c args) = [(0, JObj (assign kvs ''wt'' (JStr ''json'')))]"
    by (simp add: updateExtract_def Let_def)
next
  show "get_prop (JObj (assign kvs ''wt'' (JStr ''json''))) ''wt'' = JStr ''json''"
    by (rule get_prop_assign)
next
  assume a: "args = [JFun f]"
  then show "mutated (updateExtract w e c args) = []"
    by (simp add: updateExtract_def Let_def arg_def commit_true_def)
  have "QueryString_stringify (JObj [(''commit'', JBool True), (''wt'', JStr ''json'')]) None None
          = ''commit=true&wt=json''"
    by (simp add: QueryString_stringify_def qsEscape_def qs_unreserved_def)
  then show "\<exists>base. sent_urls (updateExtract w e c args) = [base @ ''?commit=true&wt=json'']"
    using a
    by (simp add: updateExtract_def Let_def arg_def commit_true_def requestPost_def sent_urls_def
        callSolrServer_dispatched)
qed

theorem updateExtract_options_witness:
  "completion (updateExtract ok_world no_env default_client []) =
     Threw (TypeError ''Cannot set properties of undefined (setting 'wt')'')
   \<and> dispatched (updateExtract ok_world no_env default_client []) = []
   \<and> mutated (updateExtract ok_world no_env default_client
        [JObj [(''commit'', JBool False)], JFun ''done'']) =
       [(0, JObj [(''commit'', JBool False), (''wt'', JStr ''json'')])]
   \<and> mutated (updateExtract ok_world no_env default_client [JFun ''done'']) = []"
  using updateExtract_options [of "[]" ok_world no_env default_client "[]" "''done''"]
    updateExtract_options [of "[JObj [(''commit'', JBool False)], JFun ''done'']"
      ok_world no_env default_client "[(''commit'', JBool False)]" "''done''"]
    updateExtract_options [of "[JFun ''done'']" ok_world no_env default_client "[]" "''done''"]
  by (simp add: arg_def)

section \<open>The claims about the URL\<close>










section \<open>The claims about the timeout and the default options\<close>

lemma js_or_timeout:
  "js_or per_call (js_or (env_value configured) (JStr ''20000'')) = spec_timeout per_call configured"
  by (cases configured) (simp_all add: js_or_def env_value_def spec_timeout_def)

text \<open>
  C5. The timeout that \<^verbatim>\<open>_callSolrServer\<close> hands to the transport is the timeout
  option of the fetch options when they have one (a truthy one), otherwise the value of
  \<^verbatim>\<open>SOLR_TIMEOUT\<close> in the environment of the call when it is set (and not empty),
  otherwise \<^verbatim>\<open>"20000"\<close>. The fetch options that \<^verbatim>\<open>_requestGet\<close> and
  \<^verbatim>\<open>_requestPost\<close> pass have no timeout option, so for them the precedence gives the
  environment's value or \<^verbatim>\<open>"20000"\<close>.
\<close>

theorem timeout_precedence:
  "sent_timeouts (callSolrServer w e url fo cb) =
     [spec_timeout (if isNullish fo then JUndefined else get_prop fo ''timeout'') (SOLR_TIMEOUT e)]
   \<and> map (\<lambda>sent. get_prop (req_options sent) ''timeout'') (dispatched (requestGet w e c path q cb))
       = [JUndefined]
   \<and> map (\<lambda>sent. get_prop (req_options sent) ''timeout'') (dispatched (requestPost w e c path d uo cb))
       = [JUndefined]
   \<and> sent_timeouts (requestGet w e c path q cb) = [spec_timeout JUndefined (SOLR_TIMEOUT e)]
   \<and> sent_timeouts (requestPost w e c path d uo cb) = [spec_timeout JUndefined (SOLR_TIMEOUT e)]"
  by (simp add: sent_timeouts_def callSolrServer_dispatched js_or_timeout requestGet_def
      requestPost_def Let_def get_prop_def)

theorem timeout_precedence_witness:
  "sent_timeouts (callSolrServer ok_world slow_env ''http://h/'' (JObj [(''timeout'', JNum 100)]) JUndefined)
     = [JNum 100]
   \<and> sent_timeouts (callSolrServer ok_world slow_env ''http://h/'' (JObj []) JUndefined) = [JStr ''5000'']
   \<and> sent_timeouts (callSolrServer ok_world no_env ''http://h/'' JUndefined JUndefined) = [JStr ''20000'']
   \<and> sent_timeouts (requestGet ok_world slow_env default_client (JStr ''select'') (JStr ''q=*:*'') JUndefined)
     = [JStr ''5000'']
   \<and> sent_timeouts (requestPost ok_world no_env default_client (JStr ''update'') (JObj []) JUndefined JUndefined)
     = [JStr ''20000'']"
  using timeout_precedence [of ok_world slow_env "''http://h/''" "JObj [(''timeout'', JNum 100)]" JUndefined
      default_client "JStr ''select''" "JStr ''q=*:*''" "JObj []" JUndefined]
    timeout_precedence [of ok_world slow_env "''http://h/''" "JObj []" JUndefined
      default_client "JStr ''select''" "JStr ''q=*:*''" "JObj []" JUndefined]
    timeout_precedence [of ok_world no_env "''http://h/''" JUndefined JUndefined
      default_client "JStr ''update''" "JStr ''q=*:*''" "JObj []" JUndefined]
  by (simp add: spec_timeout_def slow_env_def no_env_def get_prop_def)

text \<open>
  C3 does not hold of \<^verbatim>\<open>delete\<close> and \<^verbatim>\<open>deleteByIds\<close>: with the options argument
  absent their options stay \<^verbatim>\<open>undefined\<close> and the query string of the URL is empty,
  where \<^verbatim>\<open>update\<close>, which also tests \<^verbatim>\<open>!options\<close>, sends \<^verbatim>\<open>commit=true\<close>. With a
  function in the place of the options all three send \<^verbatim>\<open>commit=true\<close>.
\<close>

theorem delete_without_options:
  assumes "Client opts = Inr c"
  shows "sent_urls (delete w e c [q]) = [spec_url (options c) ''update'' []]
    \<and> sent_urls (deleteByIds w e c [JArr xs ps]) = [spec_url (options c) ''update'' []]
    \<and> sent_urls (update w e c [d]) = [spec_url (options c) ''update'' ''commit=true'']
    \<and> sent_urls (delete w e c [q, JFun f]) = [spec_url (options c) ''update'' ''commit=true'']
    \<and> sent_urls (deleteByIds w e c [JArr xs ps, JFun f]) = [spec_url (options c) ''update'' ''commit=true'']"
proof -
  have path: "UPDATE_PATH c = JStr ''update''"
    using Client_fields(9) [OF assms] .
  note url = requestPost_url [OF assms, of "JStr ''update''" w e]
  have ct: "QueryString_stringify (JObj [(''commit'', JBool True)]) None None = ''commit=true''"
    using stringify_commit_true by (simp add: commit_true_def)
  have 1: "sent_urls (delete w e c [q]) = [spec_url (options c) ''update'' []]"
    using url by (simp add: delete_def Let_def path arg_def)
  have 2: "sent_urls (deleteByIds w e c [JArr xs ps]) = [spec_url (options c) ''update'' []]"
    using url by (simp add: deleteByIds_def Let_def path arg_def)
  have 3: "sent_urls (update w e c [d]) = [spec_url (options c) ''update'' ''commit=true'']"
    using url by (simp add: update_def Let_def path arg_def commit_true_def ct)
  have 4: "sent_urls (delete w e c [q, JFun f]) = [spec_url (options c) ''update'' ''commit=true'']"
    using url by (simp add: delete_def Let_def path arg_def commit_true_def ct)
  have 5: "sent_urls (deleteByIds w e c [JArr xs ps, JFun f]) =
      [spec_url (options c) ''update'' ''commit=true'']"
    using url by (simp add: deleteByIds_def Let_def path arg_def commit_true_def ct)
  from 1 2 3 4 5 show ?thesis by simp
qed

theorem delete_without_options_witness:
  "sent_urls (delete ok_world no_env default_client [JStr ''id:1'']) =
     [''http://127.0.0.1:8983/solr//update?'']
   \<and> sent_urls (deleteByIds ok_world no_env default_client [JArr [JStr ''a''] []]) =
     [''http://127.0.0.1:8983/solr//update?'']
   \<and> sent_urls (update ok_world no_env default_client [JObj [(''id'', JNum 1)]]) =
     [''http://127.0.0.1:8983/solr//update?commit=true'']
   \<and> sent_urls (delete ok_world no_env default_client [JStr ''id:1'', JFun ''done'']) =
     [''http://127.0.0.1:8983/solr//update?commit=true'']"
  using delete_without_options [OF Client_default, of ok_world no_env "JStr ''id:1''" "[JStr ''a'']" "[]"
      "JObj [(''id'', JNum 1)]" "''done''"]
  by (simp add: spec_url_def default_client_def)

section \<open>The claims about the two calling conventions\<close>











end
